theory Spec2Isabelle
  imports Complex_Main "HOL-Library.Word"
begin

section \<open>JavaScript values as the frontend sees them\<close>

text \<open>
  The component of \<^verbatim>\<open>frontend/src/App.jsx\<close> holds strings, parsed JSON bodies and
  selected files in its state. A JavaScript string is a sequence of UTF-16 code units;
  source literals are ASCII except for the check mark U+2713 and the ballot cross U+2717
  that open the status messages.
\<close>

type_synonym jschar = "16 word"
type_synonym jsstring = "jschar list"

definition js :: "string \<Rightarrow> jsstring" where
  "js s = map of_char s"

definition check_mark :: jsstring where
  "check_mark = [0x2713]"

definition ballot_x :: jsstring where
  "ballot_x = [0x2717]"

text \<open>
  A value is \<^verbatim>\<open>undefined\<close> or what \<^verbatim>\<open>JSON.parse\<close> builds. The numbers of the model
  are the integers from \<open>-2\<^sup>5\<^sup>3\<close> to \<open>2\<^sup>5\<^sup>3 - 1\<close>, held as a signed 54-bit word and read
  with \<open>sint\<close>: each of them is a JavaScript number, exactly, and prints as its plain
  decimal digits. Fractions and larger magnitudes, whose printing and parsing is floating
  point, are outside the model, and no term stands for them: a numeral beyond the range
  wraps around like any word numeral. An object is the list of its own properties, keys
  distinct; none of its properties is callable, since JSON has no functions.
\<close>

type_synonym safe_integer = "54 word"

datatype jsval =
    Undefined
  | Null
  | Bool bool
  | Num safe_integer
  | Str jsstring
  | Arr "jsval list"
  | Obj "(jsstring \<times> jsval) list"

text \<open>
  Everything the handlers catch is an \<^verbatim>\<open>Error\<close> object: the \<^verbatim>\<open>TypeError\<close> of a property
  read on \<^verbatim>\<open>undefined\<close> or \<^verbatim>\<open>null\<close>, of a conversion to a primitive that fails and of
  a failed \<^verbatim>\<open>fetch\<close>, the \<^verbatim>\<open>SyntaxError\<close> of \<^verbatim>\<open>response.json()\<close>, the
  \<^verbatim>\<open>DOMException\<close> of an aborted request.
\<close>

datatype exn =
    TypeError (message: jsstring)
  | SyntaxError (message: jsstring)
  | DOMException (message: jsstring)

text \<open>
  \<^verbatim>\<open>v.k\<close>: throws on \<^verbatim>\<open>undefined\<close> and \<^verbatim>\<open>null\<close> (the message is V8's wording), reads
  an own property of an object, and is \<^verbatim>\<open>undefined\<close> when the property is absent. Of
  the keys the component reads, \<^verbatim>\<open>length\<close> exists on strings (the number of code units)
  and on arrays; the others (\<^verbatim>\<open>statistics\<close>, \<^verbatim>\<open>documents\<close>, \<^verbatim>\<open>chunks\<close>, \<^verbatim>\<open>detail\<close>,
  \<^verbatim>\<open>total_documents\<close>, \<^verbatim>\<open>total_chunks\<close>, \<^verbatim>\<open>answer\<close>, \<^verbatim>\<open>sources\<close>, \<^verbatim>\<open>confidence\<close>,
  \<^verbatim>\<open>filename\<close>, \<^verbatim>\<open>relevance_score\<close>) are not members of any built-in prototype, so they
  are absent on booleans, numbers, strings and arrays. The one method the component
  calls on a value, \<^verbatim>\<open>map\<close>, is treated where it is called.
\<close>

definition cannot_read :: "string \<Rightarrow> jsstring \<Rightarrow> jsstring" where
  "cannot_read what k =
     js ''Cannot read properties of '' @ js what @ js '' (reading '' @ [0x27] @ k @ [0x27] @ js '')''"

fun get_prop :: "jsval \<Rightarrow> jsstring \<Rightarrow> exn + jsval" where
  "get_prop Undefined k = Inl (TypeError (cannot_read ''undefined'' k))"
| "get_prop Null k = Inl (TypeError (cannot_read ''null'' k))"
| "get_prop (Obj kvs) k = Inr (case map_of kvs k of None \<Rightarrow> Undefined | Some v \<Rightarrow> v)"
| "get_prop (Bool b) k = Inr Undefined"
| "get_prop (Num n) k = Inr Undefined"
| "get_prop (Str s) k = Inr (if k = js ''length'' then Num (of_nat (length s)) else Undefined)"
| "get_prop (Arr xs) k = Inr (if k = js ''length'' then Num (of_nat (length xs)) else Undefined)"

text \<open>Truthiness, as \<^verbatim>\<open>&&\<close>, \<^verbatim>\<open>||\<close> and \<^verbatim>\<open>!\<close> test it.\<close>

fun truthy :: "jsval \<Rightarrow> bool" where
  "truthy Undefined = False"
| "truthy Null = False"
| "truthy (Bool b) = b"
| "truthy (Num n) = (n \<noteq> 0)"
| "truthy (Str s) = (s \<noteq> [])"
| "truthy (Arr xs) = True"
| "truthy (Obj kvs) = True"

text \<open>
  \<^verbatim>\<open>ToString\<close>, which a template literal applies to each substitution. A number prints
  as its decimal digits. An array prints through \<^verbatim>\<open>join\<close>: its elements' texts with
  commas between, \<^verbatim>\<open>null\<close> and \<^verbatim>\<open>undefined\<close> elements printing as nothing. An object
  is converted by \<^verbatim>\<open>OrdinaryToPrimitive\<close>, which looks up \<^verbatim>\<open>toString\<close> and
  \<^verbatim>\<open>valueOf\<close>: the inherited \<^verbatim>\<open>toString\<close> gives \<^verbatim>\<open>[object Object]\<close>, but an own
  property \<^verbatim>\<open>toString\<close> hides it and is not callable, the inherited \<^verbatim>\<open>valueOf\<close> returns
  the object itself and an own \<^verbatim>\<open>valueOf\<close> is not callable either, so the conversion
  throws a \<^verbatim>\<open>TypeError\<close> (the message is V8's wording). An array element that throws makes
  the array throw.
\<close>

fun digits :: "nat \<Rightarrow> jsstring" where
  "digits n = (if n < 10 then [of_nat (48 + n)] else digits (n div 10) @ [of_nat (48 + n mod 10)])"

declare digits.simps [simp del]

definition show_int :: "int \<Rightarrow> jsstring" where
  "show_int i = (if i < 0 then js ''-'' @ digits (nat (- i)) else digits (nat i))"

fun join :: "jsstring \<Rightarrow> jsstring list \<Rightarrow> jsstring" where
  "join sep [] = []"
| "join sep [x] = x"
| "join sep (x # y # ys) = x @ sep @ join sep (y # ys)"

text \<open>The results of a list of steps, or the first exception among them.\<close>

fun sequence :: "(exn + 'a) list \<Rightarrow> exn + 'a list" where
  "sequence [] = Inr []"
| "sequence (x # xs) =
     (case x of
        Inl err \<Rightarrow> Inl err
      | Inr v \<Rightarrow> (case sequence xs of Inl err \<Rightarrow> Inl err | Inr vs \<Rightarrow> Inr (v # vs)))"

definition cannot_convert :: jsstring where
  "cannot_convert = js ''Cannot convert object to primitive value''"

fun to_string :: "jsval \<Rightarrow> exn + jsstring" where
  "to_string Undefined = Inr (js ''undefined'')"
| "to_string Null = Inr (js ''null'')"
| "to_string (Bool b) = Inr (if b then js ''true'' else js ''false'')"
| "to_string (Num n) = Inr (show_int (sint n))"
| "to_string (Str s) = Inr s"
| "to_string (Arr xs) =
     (case sequence (map (\<lambda>x. if x = Undefined \<or> x = Null then Inr [] else to_string x) xs) of
        Inl err \<Rightarrow> Inl err
      | Inr texts \<Rightarrow> Inr (join (js '','') texts))"
| "to_string (Obj kvs) =
     (case map_of kvs (js ''toString'') of
        Some v \<Rightarrow> Inl (TypeError cannot_convert)
      | None \<Rightarrow> Inr (js ''[object Object]''))"

text \<open>
  \<^verbatim>\<open>ToPrimitive\<close> with hint number, the first step of \<^verbatim>\<open>v > 0\<close> and of \<^verbatim>\<open>v * 100\<close>:
  a primitive is itself; an array or an object tries \<^verbatim>\<open>valueOf\<close>, which gives no
  primitive, and then \<^verbatim>\<open>toString\<close>, so it becomes its \<^verbatim>\<open>ToString\<close> text or throws as
  that does.
\<close>

fun to_primitive :: "jsval \<Rightarrow> exn + jsval" where
  "to_primitive (Arr xs) =
     (case to_string (Arr xs) of Inl err \<Rightarrow> Inl err | Inr printed \<Rightarrow> Inr (Str printed))"
| "to_primitive (Obj kvs) =
     (case to_string (Obj kvs) of Inl err \<Rightarrow> Inl err | Inr printed \<Rightarrow> Inr (Str printed))"
| "to_primitive v = Inr v"

text \<open>
  \<^verbatim>\<open>v > 0\<close>. The primitive is converted with \<^verbatim>\<open>ToNumber\<close>: \<^verbatim>\<open>undefined\<close> gives
  \<^verbatim>\<open>NaN\<close>, \<^verbatim>\<open>null\<close> gives 0, \<^verbatim>\<open>true\<close> gives 1, the text \<^verbatim>\<open>[object Object]\<close> of an
  object gives \<^verbatim>\<open>NaN\<close>. Any other string, and the text of an array, is parsed by the
  engine's \<^verbatim>\<open>StringToNumber\<close>: that floating-point parser is not modelled, and
  \<open>str_gt0 s\<close> stands for \<^verbatim>\<open>StringToNumber(s) > 0\<close>.
\<close>

fun gt0 :: "(jsstring \<Rightarrow> bool) \<Rightarrow> jsval \<Rightarrow> exn + bool" where
  "gt0 str_gt0 Undefined = Inr False"
| "gt0 str_gt0 Null = Inr False"
| "gt0 str_gt0 (Bool b) = Inr b"
| "gt0 str_gt0 (Num n) = Inr (0 < sint n)"
| "gt0 str_gt0 (Str s) = Inr (str_gt0 s)"
| "gt0 str_gt0 (Arr xs) =
     (case to_string (Arr xs) of Inl err \<Rightarrow> Inl err | Inr printed \<Rightarrow> Inr (str_gt0 printed))"
| "gt0 str_gt0 (Obj kvs) =
     (case to_string (Obj kvs) of Inl err \<Rightarrow> Inl err | Inr printed \<Rightarrow> Inr False)"

text \<open>
  \<^verbatim>\<open>String.prototype.trim\<close> strips the code units of \<^verbatim>\<open>WhiteSpace\<close> and
  \<^verbatim>\<open>LineTerminator\<close> from both ends.
\<close>

definition is_white_space :: "jschar \<Rightarrow> bool" where
  "is_white_space c \<longleftrightarrow>
     c \<in> {0x0009, 0x000A, 0x000B, 0x000C, 0x000D, 0x0020, 0x00A0, 0x1680,
          0x2000, 0x2001, 0x2002, 0x2003, 0x2004, 0x2005, 0x2006, 0x2007, 0x2008, 0x2009, 0x200A,
          0x2028, 0x2029, 0x202F, 0x205F, 0x3000, 0xFEFF}"

definition trim :: "jsstring \<Rightarrow> jsstring" where
  "trim s = rev (dropWhile is_white_space (rev (dropWhile is_white_space s)))"

section \<open>The component: state, environment, effects\<close>

text \<open>
  The six \<^verbatim>\<open>useState\<close> cells of \<^verbatim>\<open>KnowledgeBaseApp\<close>. \<^verbatim>\<open>answer\<close> and \<^verbatim>\<open>stats\<close> start
  as \<^verbatim>\<open>null\<close> and later hold whatever JSON the backend sent.
\<close>

record js_file =
  file_name :: jsstring
  file_bytes :: "8 word list"

record app_state =
  files :: "js_file list"
  query :: jsstring
  answer :: jsval
  loading :: bool
  stats :: jsval
  uploadStatus :: jsstring

definition initial_state :: app_state where
  "initial_state =
     \<lparr>files = [], query = [], answer = Null, loading = False, stats = Null, uploadStatus = []\<rparr>"

text \<open>
  A request as \<^verbatim>\<open>fetch\<close> receives it; \<open>http_method\<close> is the \<^verbatim>\<open>method\<close> option
  (\<^verbatim>\<open>GET\<close> when it is left out). The body is the \<^verbatim>\<open>FormData\<close> entries, or the value
  handed to \<^verbatim>\<open>JSON.stringify\<close> (the serialised text is not modelled).
\<close>

datatype body =
    NoBody
  | FormData "(jsstring \<times> js_file) list"
  | JsonBody jsval

record request =
  url :: jsstring
  http_method :: jsstring
  headers :: "(jsstring \<times> jsstring) list"
  body :: body

text \<open>
  The settled outcome of \<^verbatim>\<open>await fetch(...)\<close> followed by \<^verbatim>\<open>await response.json()\<close>:
  the fetch rejects, or it resolves to a response with its \<^verbatim>\<open>ok\<close> flag whose body
  parses to a value or makes \<^verbatim>\<open>json()\<close> reject. A promise that never settles is not an
  outcome: the handlers are described at their completion.
\<close>

datatype fetch_outcome =
    Rejected exn
  | Response bool "exn + jsval"

text \<open>
  What one handler invocation meets outside the component: the build-time variable
  \<^verbatim>\<open>import.meta.env.VITE_API_URL\<close> (\<open>None\<close> when unset), the backend's outcome for
  each request, and the user's answer to \<^verbatim>\<open>window.confirm\<close>.
\<close>

record env =
  VITE_API_URL :: "jsstring option"
  server :: "request \<Rightarrow> fetch_outcome"
  confirms :: bool

text \<open>What a handler does to the outside, in order.\<close>

datatype effect =
    Alert jsstring
  | Confirm jsstring
  | Fetch request
  | ResetFileInput
  | ConsoleError jsstring exn

type_synonym handler_result = "app_state \<times> effect list"

definition API_URL :: "env \<Rightarrow> jsstring" where
  "API_URL e =
     (case VITE_API_URL e of
        None \<Rightarrow> js ''http://localhost:8000''
      | Some u \<Rightarrow> if u = [] then js ''http://localhost:8000'' else u)"

section \<open>The handlers\<close>

definition handleFileChange :: "js_file list \<Rightarrow> app_state \<Rightarrow> app_state" where
  "handleFileChange target_files s = s\<lparr>files := target_files\<rparr>"

definition stats_request :: "env \<Rightarrow> request" where
  "stats_request e =
     \<lparr>url = API_URL e @ js ''/stats'', http_method = js ''GET'', headers = [], body = NoBody\<rparr>"

definition fetchStats :: "env \<Rightarrow> app_state \<Rightarrow> handler_result" where
  "fetchStats e s =
     (case server e (stats_request e) of
        Rejected err \<Rightarrow>
          (s, [Fetch (stats_request e), ConsoleError (js ''Error fetching stats:'') err])
      | Response ok parsed \<Rightarrow>
          (case parsed of
             Inl err \<Rightarrow>
               (s, [Fetch (stats_request e), ConsoleError (js ''Error fetching stats:'') err])
           | Inr result \<Rightarrow> (s\<lparr>stats := result\<rparr>, [Fetch (stats_request e)])))"

definition upload_request :: "env \<Rightarrow> app_state \<Rightarrow> request" where
  "upload_request e s =
     \<lparr>url = API_URL e @ js ''/upload'', http_method = js ''POST'', headers = [],
      body = FormData (map (\<lambda>f. (js ''files'', f)) (files s))\<rparr>"

text \<open>
  A substitution \<^verbatim>\<open>${v.a.b}\<close> of a template literal: the two reads, then \<^verbatim>\<open>ToString\<close>;
  each of the three can throw.
\<close>

definition substitution :: "jsval \<Rightarrow> jsstring \<Rightarrow> jsstring \<Rightarrow> exn + jsstring" where
  "substitution v a b =
     (case get_prop v a of
        Inl err \<Rightarrow> Inl err
      | Inr inner \<Rightarrow>
          (case get_prop inner b of
             Inl err \<Rightarrow> Inl err
           | Inr x \<Rightarrow> to_string x))"

text \<open>
  The success message of \<^verbatim>\<open>uploadDocuments\<close>: the template literal evaluates
  \<^verbatim>\<open>${result.statistics.documents}\<close>, then \<^verbatim>\<open>${result.statistics.chunks}\<close>; a throw in
  either leaves the \<^verbatim>\<open>try\<close> block.
\<close>

definition upload_success_message :: "jsval \<Rightarrow> exn + jsstring" where
  "upload_success_message result =
     (case substitution result (js ''statistics'') (js ''documents'') of
        Inl err \<Rightarrow> Inl err
      | Inr documents_text \<Rightarrow>
          (case substitution result (js ''statistics'') (js ''chunks'') of
             Inl err \<Rightarrow> Inl err
           | Inr chunks_text \<Rightarrow>
               Inr (check_mark @ js '' Successfully processed '' @ documents_text
                    @ js '' documents ('' @ chunks_text @ js '' chunks)'')))"

text \<open>The status line of a failure: the ballot cross, \<^verbatim>\<open> Error: \<close> and the text.\<close>

definition status_error :: "jsstring \<Rightarrow> jsstring" where
  "status_error m = ballot_x @ js '' Error: '' @ m"

text \<open>The substitution \<^verbatim>\<open>${result.detail}\<close>: the read, then \<^verbatim>\<open>ToString\<close>.\<close>

definition detail_of :: "jsval \<Rightarrow> exn + jsstring" where
  "detail_of result =
     (case get_prop result (js ''detail'') of
        Inl err \<Rightarrow> Inl err
      | Inr d \<Rightarrow> to_string d)"

text \<open>
  Each of the three handlers is a guard, the writes before the \<^verbatim>\<open>try\<close>, and
  \<^verbatim>\<open>try { ... } catch (error) { ... } finally { setLoading(false) }\<close>. The \<^verbatim>\<open>try\<close>
  block is modelled on its own: it ends with the state it wrote, or it throws (a rejected
  fetch, a rejected \<^verbatim>\<open>json()\<close>, a throwing property read), and either way it has sent
  its request. No block writes the state before a point where it can still throw.
\<close>

type_synonym try_result = "(exn + app_state) \<times> effect list"

text \<open>
  \<^verbatim>\<open>uploadDocuments\<close>. \<^verbatim>\<open>fetchStats()\<close> is called without \<^verbatim>\<open>await\<close>: its request
  leaves before \<^verbatim>\<open>finally\<close> runs, and its \<^verbatim>\<open>setStats\<close> writes a cell no other step of
  this handler writes, so the state once both have completed is the same in either order.
  The element \<^verbatim>\<open>file-upload\<close> is rendered unconditionally, so clearing its value is an
  effect that cannot throw.
\<close>

definition upload_try :: "env \<Rightarrow> app_state \<Rightarrow> try_result" where
  "upload_try e s1 =
     (let req = upload_request e s1 in
      case server e req of
        Rejected err \<Rightarrow> (Inl err, [Fetch req])
      | Response ok parsed \<Rightarrow>
          (case parsed of
             Inl err \<Rightarrow> (Inl err, [Fetch req])
           | Inr result \<Rightarrow>
               if ok then
                 (case upload_success_message result of
                    Inl err \<Rightarrow> (Inl err, [Fetch req])
                  | Inr msg \<Rightarrow>
                      let (s2, effs) = fetchStats e (s1\<lparr>uploadStatus := msg, files := []\<rparr>)
                      in (Inr s2, [Fetch req, ResetFileInput] @ effs))
               else
                 (case detail_of result of
                    Inl err \<Rightarrow> (Inl err, [Fetch req])
                  | Inr d \<Rightarrow> (Inr (s1\<lparr>uploadStatus := status_error d\<rparr>), [Fetch req]))))"

definition uploadDocuments :: "env \<Rightarrow> app_state \<Rightarrow> handler_result" where
  "uploadDocuments e s =
     (if length (files s) = 0 then (s, [Alert (js ''Please select files to upload'')])
      else
        let s1 = s\<lparr>loading := True,
                   uploadStatus := js ''Uploading and processing documents...''\<rparr>;
            (r, effs) = upload_try e s1;
            s2 = (case r of
                    Inl err \<Rightarrow> s1\<lparr>uploadStatus := status_error (message err)\<rparr>
                  | Inr s' \<Rightarrow> s')
        in (s2\<lparr>loading := False\<rparr>, effs))"

text \<open>
  \<^verbatim>\<open>searchKnowledgeBase\<close>. The guard is \<^verbatim>\<open>!query.trim()\<close>: the empty string is the
  only falsy string.
\<close>

definition query_request :: "env \<Rightarrow> app_state \<Rightarrow> request" where
  "query_request e s =
     \<lparr>url = API_URL e @ js ''/query'', http_method = js ''POST'',
      headers = [(js ''Content-Type'', js ''application/json'')],
      body = JsonBody (Obj [(js ''question'', Str (query s)),
                            (js ''top_k'', Num 5),
                            (js ''include_sources'', Bool True)])\<rparr>"

definition error_answer :: "jsstring \<Rightarrow> jsval" where
  "error_answer m = Obj [(js ''answer'', Str (js ''Error: '' @ m)), (js ''sources'', Arr [])]"

definition search_try :: "env \<Rightarrow> app_state \<Rightarrow> try_result" where
  "search_try e s1 =
     (let req = query_request e s1 in
      case server e req of
        Rejected err \<Rightarrow> (Inl err, [Fetch req])
      | Response ok parsed \<Rightarrow>
          (case parsed of
             Inl err \<Rightarrow> (Inl err, [Fetch req])
           | Inr result \<Rightarrow>
               if ok then (Inr (s1\<lparr>answer := result\<rparr>), [Fetch req])
               else
                 (case detail_of result of
                    Inl err \<Rightarrow> (Inl err, [Fetch req])
                  | Inr d \<Rightarrow> (Inr (s1\<lparr>answer := error_answer d\<rparr>), [Fetch req]))))"

definition searchKnowledgeBase :: "env \<Rightarrow> app_state \<Rightarrow> handler_result" where
  "searchKnowledgeBase e s =
     (if \<not> truthy (Str (trim (query s))) then (s, [Alert (js ''Please enter a question'')])
      else
        let s1 = s\<lparr>loading := True, answer := Null\<rparr>;
            (r, effs) = search_try e s1;
            s2 = (case r of
                    Inl err \<Rightarrow> s1\<lparr>answer := error_answer (message err)\<rparr>
                  | Inr s' \<Rightarrow> s')
        in (s2\<lparr>loading := False\<rparr>, effs))"

text \<open>\<^verbatim>\<open>clearKnowledgeBase\<close>: nothing happens unless \<^verbatim>\<open>window.confirm\<close> returns true.\<close>

definition clear_request :: "env \<Rightarrow> request" where
  "clear_request e =
     \<lparr>url = API_URL e @ js ''/clear'', http_method = js ''DELETE'', headers = [], body = NoBody\<rparr>"

definition clear_prompt :: jsstring where
  "clear_prompt = js ''Are you sure you want to clear all documents?''"

definition cleared_message :: jsstring where
  "cleared_message = check_mark @ js '' Knowledge base cleared''"

definition clear_try :: "env \<Rightarrow> app_state \<Rightarrow> try_result" where
  "clear_try e s1 =
     (let req = clear_request e in
      case server e req of
        Rejected err \<Rightarrow> (Inl err, [Fetch req])
      | Response ok parsed \<Rightarrow>
          (case parsed of
             Inl err \<Rightarrow> (Inl err, [Fetch req])
           | Inr result \<Rightarrow>
               if ok then
                 (Inr (s1\<lparr>uploadStatus := cleared_message, stats := Null, answer := Null\<rparr>),
                  [Fetch req])
               else
                 (case detail_of result of
                    Inl err \<Rightarrow> (Inl err, [Fetch req])
                  | Inr d \<Rightarrow> (Inr (s1\<lparr>uploadStatus := status_error d\<rparr>), [Fetch req]))))"

definition clearKnowledgeBase :: "env \<Rightarrow> app_state \<Rightarrow> handler_result" where
  "clearKnowledgeBase e s =
     (if \<not> confirms e then (s, [Confirm clear_prompt])
      else
        let s1 = s\<lparr>loading := True\<rparr>;
            (r, effs) = clear_try e s1;
            s2 = (case r of
                    Inl err \<Rightarrow> s1\<lparr>uploadStatus := status_error (message err)\<rparr>
                  | Inr s' \<Rightarrow> s')
        in (s2\<lparr>loading := False\<rparr>, Confirm clear_prompt # effs))"

text \<open>The requests among a handler's effects, in the order they were sent.\<close>

fun requests :: "effect list \<Rightarrow> request list" where
  "requests [] = []"
| "requests (Fetch r # es) = r # requests es"
| "requests (x # es) = requests es"

section \<open>What is rendered\<close>

text \<open>
  The stats bar is the JSX expression
  \<^verbatim>\<open>stats && stats.total_chunks > 0 && (<div className="stats-bar">...)\<close>. Evaluating it
  gives nothing to show, or the element with \<^verbatim>\<open>stats.total_documents\<close> and
  \<^verbatim>\<open>stats.total_chunks\<close> as the children of its two value spans and with the Clear All
  button, whose \<^verbatim>\<open>onClick\<close> is \<^verbatim>\<open>clearKnowledgeBase\<close> and which is disabled while
  \<^verbatim>\<open>loading\<close>; or it throws, when the comparison cannot convert its operand. The button
  occurs nowhere else in the tree. \<open>stats_bar\<close> is this expression as the component
  evaluates it, with the two values as they are handed to React; whether React then
  commits the tree is \<open>render\<close>, below.
\<close>

record stats_bar_view =
  documents_value :: jsval
  chunks_value :: jsval
  clear_all_disabled :: bool

definition stats_bar :: "(jsstring \<Rightarrow> bool) \<Rightarrow> app_state \<Rightarrow> exn + stats_bar_view option" where
  "stats_bar str_gt0 s =
     (if \<not> truthy (stats s) then Inr None
      else
        (case get_prop (stats s) (js ''total_chunks'') of
           Inl err \<Rightarrow> Inl err
         | Inr c \<Rightarrow>
             (case gt0 str_gt0 c of
                Inl err \<Rightarrow> Inl err
              | Inr positive \<Rightarrow>
                  if \<not> positive then Inr None
                  else
                    (case get_prop (stats s) (js ''total_documents'') of
                       Inl err \<Rightarrow> Inl err
                     | Inr d \<Rightarrow>
                         Inr (Some \<lparr>documents_value = d, chunks_value = c,
                                    clear_all_disabled = loading s\<rparr>)))))"

text \<open>
  The answer card is guarded by \<^verbatim>\<open>answer && (...)\<close>: with a falsy \<^verbatim>\<open>answer\<close> there is
  no card. \<open>answer_card_rendered\<close> is this guard.
\<close>

definition answer_card_rendered :: "app_state \<Rightarrow> bool" where
  "answer_card_rendered s = truthy (answer s)"

text \<open>
  Inside the card: the paragraph with \<^verbatim>\<open>answer.answer\<close>; the sources list, guarded by
  \<^verbatim>\<open>answer.sources && answer.sources.length > 0\<close> and built by
  \<^verbatim>\<open>answer.sources.map(...)\<close>, so that anything but an array throws there (no JSON
  value has a callable \<^verbatim>\<open>map\<close> of its own); per source the child
  \<^verbatim>\<open>source.filename\<close> and the text \<^verbatim>\<open>(source.relevance_score * 100).toFixed(1)\<close>,
  whose digits are floating point and are not modelled, only the conversion that can
  throw; the confidence badge, guarded by \<^verbatim>\<open>answer.confidence\<close>, with the class name
  \<^verbatim>\<open>`confidence-value confidence-${answer.confidence}`\<close> and the child
  \<^verbatim>\<open>answer.confidence\<close>.
\<close>

record source_view =
  filename_value :: jsval
  relevance_value :: jsval

record answer_view =
  answer_value :: jsval
  sources_shown :: "source_view list option"
  confidence_shown :: "jsval option"

definition source_item :: "jsval \<Rightarrow> exn + source_view" where
  "source_item source =
     (case get_prop source (js ''filename'') of
        Inl err \<Rightarrow> Inl err
      | Inr name \<Rightarrow>
          (case get_prop source (js ''relevance_score'') of
             Inl err \<Rightarrow> Inl err
           | Inr rel \<Rightarrow>
               (case to_primitive rel of
                  Inl err \<Rightarrow> Inl err
                | Inr p \<Rightarrow> Inr \<lparr>filename_value = name, relevance_value = rel\<rparr>)))"

definition not_a_function :: jsstring where
  "not_a_function = js ''answer.sources.map is not a function''"

definition sources_section :: "(jsstring \<Rightarrow> bool) \<Rightarrow> jsval \<Rightarrow> exn + source_view list option" where
  "sources_section str_gt0 a =
     (case get_prop a (js ''sources'') of
        Inl err \<Rightarrow> Inl err
      | Inr srcs \<Rightarrow>
          if \<not> truthy srcs then Inr None
          else
            (case get_prop srcs (js ''length'') of
               Inl err \<Rightarrow> Inl err
             | Inr len \<Rightarrow>
                 (case gt0 str_gt0 len of
                    Inl err \<Rightarrow> Inl err
                  | Inr positive \<Rightarrow>
                      if \<not> positive then Inr None
                      else
                        (case srcs of
                           Arr xs \<Rightarrow>
                             (case sequence (map source_item xs) of
                                Inl err \<Rightarrow> Inl err
                              | Inr items \<Rightarrow> Inr (Some items))
                         | _ \<Rightarrow> Inl (TypeError not_a_function)))))"

definition confidence_badge :: "jsval \<Rightarrow> exn + jsval option" where
  "confidence_badge a =
     (case get_prop a (js ''confidence'') of
        Inl err \<Rightarrow> Inl err
      | Inr c \<Rightarrow>
          if \<not> truthy c then Inr None
          else (case to_string c of Inl err \<Rightarrow> Inl err | Inr class_name \<Rightarrow> Inr (Some c)))"

definition answer_card :: "(jsstring \<Rightarrow> bool) \<Rightarrow> app_state \<Rightarrow> exn + answer_view option" where
  "answer_card str_gt0 s =
     (if \<not> truthy (answer s) then Inr None
      else
        (case get_prop (answer s) (js ''answer'') of
           Inl err \<Rightarrow> Inl err
         | Inr paragraph \<Rightarrow>
             (case sources_section str_gt0 (answer s) of
                Inl err \<Rightarrow> Inl err
              | Inr srcs \<Rightarrow>
                  (case confidence_badge (answer s) of
                     Inl err \<Rightarrow> Inl err
                   | Inr conf \<Rightarrow>
                       Inr (Some \<lparr>answer_value = paragraph, sources_shown = srcs,
                                  confidence_shown = conf\<rparr>)))))"

text \<open>
  A value placed as a child of an element: React renders a string or a number as text,
  nothing for a boolean, \<^verbatim>\<open>null\<close> or \<^verbatim>\<open>undefined\<close>, the elements of an array in turn,
  and throws on any other object (\<^verbatim>\<open>Objects are not valid as a React child\<close>); an object
  from JSON is never a React element.
\<close>

fun renderable :: "jsval \<Rightarrow> bool" where
  "renderable (Obj kvs) = False"
| "renderable (Arr xs) = list_all renderable xs"
| "renderable v = True"

definition stats_bar_children_ok :: "stats_bar_view \<Rightarrow> bool" where
  "stats_bar_children_ok b = (renderable (documents_value b) \<and> renderable (chunks_value b))"

definition answer_children_ok :: "answer_view \<Rightarrow> bool" where
  "answer_children_ok c =
     (renderable (answer_value c)
      \<and> (case sources_shown c of
            None \<Rightarrow> True
          | Some items \<Rightarrow> list_all (\<lambda>i. renderable (filename_value i)) items)
      \<and> (case confidence_shown c of None \<Rightarrow> True | Some v \<Rightarrow> renderable v))"

text \<open>
  One render of the component. The other parts of the tree (header, file input, selected
  file names, status line, text area, the two submit buttons) hold strings, numbers and
  booleans of the component's own and cannot fail. When an expression throws while the
  component evaluates its JSX, or React meets a child it cannot render, the render fails
  and nothing of the component is displayed (the component has no error boundary of its
  own), which is \<open>None\<close>. Otherwise the view tells what the stats bar and the answer
  card hold.
\<close>

record view =
  stats_bar_of :: "stats_bar_view option"
  answer_card_of :: "answer_view option"

definition render :: "(jsstring \<Rightarrow> bool) \<Rightarrow> app_state \<Rightarrow> view option" where
  "render str_gt0 s =
     (case stats_bar str_gt0 s of
        Inl err \<Rightarrow> None
      | Inr bar \<Rightarrow>
          (case answer_card str_gt0 s of
             Inl err \<Rightarrow> None
           | Inr shown \<Rightarrow>
               if (case bar of None \<Rightarrow> True | Some b \<Rightarrow> stats_bar_children_ok b)
                  \<and> (case shown of None \<Rightarrow> True | Some c \<Rightarrow> answer_children_ok c)
               then Some \<lparr>stats_bar_of = bar, answer_card_of = shown\<rparr>
               else None))"

text \<open>The Clear All button is on the page: the render succeeds and shows the stats bar.\<close>

definition clear_all_rendered :: "(jsstring \<Rightarrow> bool) \<Rightarrow> app_state \<Rightarrow> bool" where
  "clear_all_rendered str_gt0 s =
     (case render str_gt0 s of
        None \<Rightarrow> False
      | Some v \<Rightarrow> (case stats_bar_of v of None \<Rightarrow> False | Some b \<Rightarrow> True))"

text \<open>
  The file input: \<^verbatim>\<open>accept=".pdf,.txt,.docx,.pptx"\<close>, a comma-separated list of
  file-type specifiers. Its \<^verbatim>\<open>onChange\<close> is \<^verbatim>\<open>handleFileChange\<close>, which stores
  \<^verbatim>\<open>e.target.files\<close> as it comes.
\<close>

definition accept :: jsstring where
  "accept = js ''.pdf,.txt,.docx,.pptx''"

fun split_on :: "jschar \<Rightarrow> jsstring \<Rightarrow> jsstring list" where
  "split_on sep [] = [[]]"
| "split_on sep (c # cs) =
     (if c = sep then [] # split_on sep cs
      else (case split_on sep cs of [] \<Rightarrow> [[c]] | w # ws \<Rightarrow> (c # w) # ws))"

definition accepted_specifiers :: "jsstring list" where
  "accepted_specifiers = split_on 0x2C accept"

text \<open>
  A file name matches an extension specifier when it ends with it, letter case ignored
  (the rule the HTML standard gives for \<^verbatim>\<open>accept\<close>).
\<close>

definition lower :: "jschar \<Rightarrow> jschar" where
  "lower c = (if 0x41 \<le> c \<and> c \<le> 0x5A then c + 0x20 else c)"

definition has_extension :: "jsstring \<Rightarrow> jsstring \<Rightarrow> bool" where
  "has_extension ext nm = (length ext \<le> length nm \<and>
     map lower (drop (length nm - length ext) nm) = map lower ext)"

definition matches_accept :: "js_file \<Rightarrow> bool" where
  "matches_accept f = list_ex (\<lambda>ext. has_extension ext (file_name f)) accepted_specifiers"

section \<open>The confidence scorer\<close>

text \<open>
  Modelled from the spec: the confidence scorer of the backend (\<^verbatim>\<open>backend/core/rag_engine.py\<close>
  in the project layout) is not among the sources. The specification gives its contract:
  \<^verbatim>\<open>score(retrieval: RetrievalResult) -> {high, medium, low}\<close>, decided by the top
  retrieved similarity score: high when above 0.70, medium when in [0.50, 0.70], low when
  below 0.50, and low on an empty result. A RetrievalResult is a sequence of chunk
  reference and similarity score, best first; the scores are taken as real numbers.
\<close>

datatype confidence = high | medium | low

record retrieved =
  chunk_ref :: nat
  similarity_score :: real

type_synonym RetrievalResult = "retrieved list"

definition score :: "RetrievalResult \<Rightarrow> confidence" where
  "score retrieval =
     (case retrieval of
        [] \<Rightarrow> low
      | best # rest \<Rightarrow>
          if similarity_score best > 0.70 then high
          else if similarity_score best \<ge> 0.50 then medium
          else low)"

section \<open>Scenarios\<close>

text \<open>
  Concrete surroundings for the examples below: a backend that cannot be reached, a backend
  that answers every request with one response, and component states reached by typing a
  question, by picking files in the file input, and by holding earlier stats and an answer.
\<close>

definition offline :: env where
  "offline = \<lparr>VITE_API_URL = None,
               server = (\<lambda>r. Rejected (TypeError (js ''Failed to fetch''))),
               confirms = True\<rparr>"

definition backend :: "bool \<Rightarrow> exn + jsval \<Rightarrow> env" where
  "backend ok parsed = \<lparr>VITE_API_URL = None, server = (\<lambda>r. Response ok parsed), confirms = True\<rparr>"

definition asking :: "jsstring \<Rightarrow> app_state" where
  "asking q = initial_state\<lparr>query := q\<rparr>"

definition picked :: "jsstring list \<Rightarrow> app_state" where
  "picked names = handleFileChange (map (\<lambda>n. \<lparr>file_name = n, file_bytes = []\<rparr>) names) initial_state"

definition holding :: "jsval \<Rightarrow> jsval \<Rightarrow> app_state" where
  "holding st ans = initial_state\<lparr>stats := st, answer := ans\<rparr>"

section \<open>Auxiliary facts\<close>

lemma list_all_dropWhile: "list_all P (dropWhile P s) = list_all P s"
  by (induction s) auto

lemma trim_empty_iff: "trim s = [] \<longleftrightarrow> list_all is_white_space s"
  using list_all_dropWhile [of is_white_space s]
  by (simp add: trim_def list_all_iff)

lemma search_try_effects: "snd (search_try e s1) = [Fetch (query_request e s1)]"
  by (simp add: search_try_def Let_def split: fetch_outcome.split sum.split)

lemma clear_try_effects: "snd (clear_try e s1) = [Fetch (clear_request e)]"
  by (simp add: clear_try_def Let_def split: fetch_outcome.split sum.split)

lemma fetchStats_requests: "requests (snd (fetchStats e s)) = [stats_request e]"
  by (simp add: fetchStats_def split: fetch_outcome.split sum.split)

lemma fetchStats_requests_pair: "fetchStats e s = (s', effs) \<Longrightarrow> requests effs = [stats_request e]"
  using fetchStats_requests [of e s] by simp

lemma upload_try_requests:
  "requests (snd (upload_try e s1)) = [upload_request e s1] \<or>
   requests (snd (upload_try e s1)) = [upload_request e s1, stats_request e]"
  by (auto simp add: upload_try_def Let_def dest: fetchStats_requests_pair
      split: fetch_outcome.split sum.split prod.split)

lemma query_request_loading: "query_request e (s\<lparr>loading := b, answer := a\<rparr>) = query_request e s"
  by (simp add: query_request_def)

lemma upload_request_loading:
  "upload_request e (s\<lparr>loading := b, uploadStatus := u\<rparr>) = upload_request e s"
  by (simp add: upload_request_def)

lemma search_state:
  "trim (query s) \<noteq> [] \<Longrightarrow>
   fst (searchKnowledgeBase e s) =
     (case fst (search_try e (s\<lparr>loading := True, answer := Null\<rparr>)) of
        Inl err \<Rightarrow> s\<lparr>answer := error_answer (message err), loading := False\<rparr>
      | Inr s' \<Rightarrow> s'\<lparr>loading := False\<rparr>)"
  by (simp add: searchKnowledgeBase_def Let_def split: prod.split sum.split)

lemma upload_state:
  "files s \<noteq> [] \<Longrightarrow>
   fst (uploadDocuments e s) =
     (case fst (upload_try e (s\<lparr>loading := True,
                                 uploadStatus := js ''Uploading and processing documents...''\<rparr>)) of
        Inl err \<Rightarrow> s\<lparr>loading := False, uploadStatus := status_error (message err)\<rparr>
      | Inr s' \<Rightarrow> s'\<lparr>loading := False\<rparr>)"
  by (simp add: uploadDocuments_def Let_def split: prod.split sum.split)

lemma upload_effects:
  "files s \<noteq> [] \<Longrightarrow>
   snd (uploadDocuments e s) =
     snd (upload_try e (s\<lparr>loading := True,
                            uploadStatus := js ''Uploading and processing documents...''\<rparr>))"
  by (simp add: uploadDocuments_def Let_def split: prod.split sum.split)

lemma clear_state:
  "confirms e \<Longrightarrow>
   fst (clearKnowledgeBase e s) =
     (case fst (clear_try e (s\<lparr>loading := True\<rparr>)) of
        Inl err \<Rightarrow> s\<lparr>loading := False, uploadStatus := status_error (message err)\<rparr>
      | Inr s' \<Rightarrow> s'\<lparr>loading := False\<rparr>)"
  by (simp add: clearKnowledgeBase_def Let_def split: prod.split sum.split)

lemma fetchStats_uploadStatus: "uploadStatus (fst (fetchStats e s)) = uploadStatus s"
  by (simp add: fetchStats_def split: fetch_outcome.split sum.split)

lemma stats_bar_Obj:
  "stats s = Obj kvs \<Longrightarrow>
   stats_bar g s =
     (let c = (case map_of kvs (js ''total_chunks'') of None \<Rightarrow> Undefined | Some v \<Rightarrow> v);
          d = (case map_of kvs (js ''total_documents'') of None \<Rightarrow> Undefined | Some v \<Rightarrow> v)
      in case gt0 g c of
           Inl err \<Rightarrow> Inl err
         | Inr positive \<Rightarrow>
             if positive
             then Inr (Some \<lparr>documents_value = d, chunks_value = c,
                             clear_all_disabled = loading s\<rparr>)
             else Inr None)"
  by (simp add: stats_bar_def Let_def split: sum.split)

lemma stats_bar_Some_iff:
  "(\<exists>b. stats_bar g s = Inr (Some b)) \<longleftrightarrow>
     stats s \<noteq> Null \<and> (\<exists>c. get_prop (stats s) (js ''total_chunks'') = Inr c \<and> gt0 g c = Inr True)"
  by (cases "stats s") (auto simp add: stats_bar_def js_def split: sum.splits)

lemma stats_bar_Null: "stats s = Null \<Longrightarrow> stats_bar g s = Inr None"
  by (simp add: stats_bar_def)

lemma answer_card_Null: "answer s = Null \<Longrightarrow> answer_card g s = Inr None"
  by (simp add: answer_card_def)

lemma render_Some_bar: "render g s = Some v \<Longrightarrow> stats_bar g s = Inr (stats_bar_of v)"
  by (auto simp add: render_def split: sum.splits if_splits)

lemma clear_all_rendered_eq:
  "clear_all_rendered g s \<longleftrightarrow> (\<exists>v b. render g s = Some v \<and> stats_bar_of v = Some b)"
  by (auto simp add: clear_all_rendered_def split: option.splits)

lemmas handler_defs =
  uploadDocuments_def upload_try_def upload_request_def upload_success_message_def
  substitution_def cannot_convert_def
  searchKnowledgeBase_def search_try_def query_request_def error_answer_def
  clearKnowledgeBase_def clear_try_def clear_request_def cleared_message_def clear_prompt_def
  fetchStats_def stats_request_def detail_of_def status_error_def cannot_read_def API_URL_def
  handleFileChange_def initial_state_def

lemmas render_defs =
  render_def stats_bar_def answer_card_def sources_section_def confidence_badge_def
  source_item_def stats_bar_children_ok_def answer_children_ok_def clear_all_rendered_def
  answer_card_rendered_def not_a_function_def

lemmas scenario_defs = offline_def backend_def asking_def picked_def holding_def

section \<open>The claims\<close>

subsection \<open>C1: what the upload success message reports\<close>

text \<open>
  C1, as amended. For every upload of a non-empty selection whose response is ok and whose
  body parses to a value \<open>result\<close> on which \<^verbatim>\<open>result.statistics.documents\<close> and
  \<^verbatim>\<open>result.statistics.chunks\<close> can be read and converted to text, the success status
  message reports exactly those two values: the check mark, \<^verbatim>\<open> Successfully processed \<close>,
  the text of the document count, \<^verbatim>\<open> documents (\<close>, the text of the chunk count,
  \<^verbatim>\<open> chunks)\<close>. The fields \<^verbatim>\<open>documents_processed\<close>, \<^verbatim>\<open>chunks_created\<close> and
  \<^verbatim>\<open>per_document_errors\<close> are never read.
\<close>

theorem upload_ok_reports_statistics:
  assumes "files s \<noteq> []"
      and "server e (upload_request e s) = Response True (Inr result)"
      and "get_prop result (js ''statistics'') = Inr st"
      and "get_prop st (js ''documents'') = Inr d"
      and "get_prop st (js ''chunks'') = Inr c"
      and "to_string d = Inr documents_text"
      and "to_string c = Inr chunks_text"
  shows "uploadStatus (fst (uploadDocuments e s)) =
           check_mark @ js '' Successfully processed '' @ documents_text
           @ js '' documents ('' @ chunks_text @ js '' chunks)''"
  using assms
  by (simp add: upload_state upload_try_def upload_request_loading upload_success_message_def
      substitution_def fetchStats_uploadStatus Let_def case_prod_beta)

text \<open>
  An instance: the backend answers \<^verbatim>\<open>{statistics: {documents: 2, chunks: 9}}\<close> to the
  upload of \<^verbatim>\<open>a.pdf\<close>.
\<close>

theorem upload_ok_reports_statistics_witness:
  "files (picked [js ''a.pdf'']) \<noteq> []
   \<and> uploadStatus (fst (uploadDocuments
         (backend True (Inr (Obj [(js ''statistics'',
                                   Obj [(js ''documents'', Num 2), (js ''chunks'', Num 9)])])))
         (picked [js ''a.pdf'']))) =
       check_mark @ js '' Successfully processed 2 documents (9 chunks)''"
proof -
  let ?st = "Obj [(js ''documents'', Num 2), (js ''chunks'', Num 9)]"
  let ?body = "Obj [(js ''statistics'', ?st)]"
  have f: "files (picked [js ''a.pdf'']) \<noteq> []"
    by (simp add: picked_def handleFileChange_def)
  have r: "server (backend True (Inr ?body)) (upload_request (backend True (Inr ?body)) (picked [js ''a.pdf'']))
             = Response True (Inr ?body)"
    by (simp add: backend_def)
  have g1: "get_prop ?body (js ''statistics'') = Inr ?st" by simp
  have g2: "get_prop ?st (js ''documents'') = Inr (Num 2)" by simp
  have g3: "get_prop ?st (js ''chunks'') = Inr (Num 9)" by (simp add: js_def)
  have t2: "to_string (Num 2) = Inr (js ''2'')" by (simp add: show_int_def digits.simps js_def)
  have t9: "to_string (Num 9) = Inr (js ''9'')" by (simp add: show_int_def digits.simps js_def)
  show ?thesis
    using f upload_ok_reports_statistics [OF f r g1 g2 g3 t2 t9]
    by (simp add: js_def)
qed

text \<open>
  C1 as stated fails. An ok response shaped
  \<^verbatim>\<open>{documents_processed: 3, chunks_created: 7, per_document_errors: []}\<close> has no
  \<^verbatim>\<open>statistics\<close>, so the template literal throws and the status line is an error, with
  no counts at all. With \<^verbatim>\<open>statistics\<close> added beside those fields, the message reports
  2 and 9, the values under \<^verbatim>\<open>statistics\<close>, not 3 and 7.
\<close>

theorem upload_reads_statistics_counterexample:
  "uploadStatus (fst (uploadDocuments
      (backend True (Inr (Obj [(js ''documents_processed'', Num 3),
                               (js ''chunks_created'', Num 7),
                               (js ''per_document_errors'', Arr [])])))
      (picked [js ''a.pdf'']))) =
     ballot_x @ js '' Error: Cannot read properties of undefined (reading ''
       @ [0x27] @ js ''documents'' @ [0x27] @ js '')''
   \<and> uploadStatus (fst (uploadDocuments
      (backend True (Inr (Obj [(js ''statistics'',
                                Obj [(js ''documents'', Num 2), (js ''chunks'', Num 9)]),
                               (js ''documents_processed'', Num 3),
                               (js ''chunks_created'', Num 7),
                               (js ''per_document_errors'', Arr [])])))
      (picked [js ''a.pdf'']))) =
     check_mark @ js '' Successfully processed 2 documents (9 chunks)''"
  by (simp add: handler_defs scenario_defs Let_def js_def show_int_def digits.simps)

subsection \<open>C2: the query request\<close>

text \<open>
  C2. For every search with a question that is not blank (not empty and not made of white
  space only), exactly one request is sent: a POST to \<^verbatim>\<open>/query\<close> with content type
  \<^verbatim>\<open>application/json\<close> whose body is the object with \<^verbatim>\<open>question\<close> the entered text,
  \<^verbatim>\<open>top_k\<close> 5 and \<^verbatim>\<open>include_sources\<close> true.
\<close>

theorem search_sends_question_top_k_sources:
  assumes "\<not> list_all is_white_space (query s)"
  shows "requests (snd (searchKnowledgeBase e s)) =
           [\<lparr>url = API_URL e @ js ''/query'', http_method = js ''POST'',
             headers = [(js ''Content-Type'', js ''application/json'')],
             body = JsonBody (Obj [(js ''question'', Str (query s)),
                                   (js ''top_k'', Num 5),
                                   (js ''include_sources'', Bool True)])\<rparr>]"
proof -
  have "trim (query s) \<noteq> []" using assms by (simp add: trim_empty_iff)
  then have "snd (searchKnowledgeBase e s) = snd (search_try e (s\<lparr>loading := True, answer := Null\<rparr>))"
    by (simp add: searchKnowledgeBase_def Let_def split: prod.split)
  then show ?thesis
    by (simp add: search_try_effects query_request_def)
qed

theorem search_sends_question_top_k_sources_witness:
  "\<not> list_all is_white_space (query (asking (js ''why?'')))
   \<and> requests (snd (searchKnowledgeBase offline (asking (js ''why?'')))) =
       [\<lparr>url = js ''http://localhost:8000/query'', http_method = js ''POST'',
         headers = [(js ''Content-Type'', js ''application/json'')],
         body = JsonBody (Obj [(js ''question'', Str (js ''why?'')),
                               (js ''top_k'', Num 5),
                               (js ''include_sources'', Bool True)])\<rparr>]"
proof -
  have nb: "\<not> list_all is_white_space (query (asking (js ''why?'')))"
    by (simp add: asking_def js_def is_white_space_def)
  show ?thesis
    using nb search_sends_question_top_k_sources [OF nb, where e = offline]
    by (simp add: API_URL_def offline_def asking_def js_def)
qed

subsection \<open>C3: confidence thresholds\<close>

text \<open>
  C3. The confidence of a RetrievalResult is high exactly when its top similarity score is
  above 0.70, medium exactly when it lies in [0.50, 0.70], low exactly when it is below
  0.50; a top score of exactly 0.70 and of exactly 0.50 give medium, 0.71 gives high,
  0.49 gives low, and the empty result gives low.
\<close>

theorem score_thresholds:
  "score [] = low
   \<and> (score (r # rs) = high \<longleftrightarrow> similarity_score r > 0.70)
   \<and> (score (r # rs) = medium \<longleftrightarrow> 0.50 \<le> similarity_score r \<and> similarity_score r \<le> 0.70)
   \<and> (score (r # rs) = low \<longleftrightarrow> similarity_score r < 0.50)
   \<and> score (\<lparr>chunk_ref = k, similarity_score = 0.70\<rparr> # rs) = medium
   \<and> score (\<lparr>chunk_ref = k, similarity_score = 0.50\<rparr> # rs) = medium
   \<and> score (\<lparr>chunk_ref = k, similarity_score = 0.71\<rparr> # rs) = high
   \<and> score (\<lparr>chunk_ref = k, similarity_score = 0.49\<rparr> # rs) = low"
  by (simp add: score_def)

subsection \<open>C4: the stats bar shows the fetched counts\<close>

text \<open>
  C4, as amended. When a stats fetch receives an object with fields \<^verbatim>\<open>total_documents\<close>
  and \<^verbatim>\<open>total_chunks\<close>, that object becomes the \<^verbatim>\<open>stats\<close> cell. Whenever the page then
  renders, its stats bar is there exactly when \<^verbatim>\<open>total_chunks > 0\<close>, and the document
  count and chunk count it shows are exactly those two fields; with \<^verbatim>\<open>total_chunks\<close> not
  above 0 no count is shown. With no answer on display, a positive \<^verbatim>\<open>total_chunks\<close> and
  two values React can render, the page does render and shows them. The component does
  not check the shape of the response.
\<close>

theorem stats_fetch_displayed:
  assumes "server e (stats_request e) = Response ok (Inr (Obj kvs))"
      and "map_of kvs (js ''total_documents'') = Some d"
      and "map_of kvs (js ''total_chunks'') = Some c"
  shows "stats (fst (fetchStats e s)) = Obj kvs
         \<and> (\<forall>v. render g (fst (fetchStats e s)) = Some v \<longrightarrow>
               stats_bar_of v =
                 (if gt0 g c = Inr True
                  then Some \<lparr>documents_value = d, chunks_value = c,
                              clear_all_disabled = loading s\<rparr>
                  else None))
         \<and> (answer s = Null \<and> gt0 g c = Inr True \<and> renderable d \<and> renderable c \<longrightarrow>
               render g (fst (fetchStats e s)) =
                 Some \<lparr>stats_bar_of = Some \<lparr>documents_value = d, chunks_value = c,
                                              clear_all_disabled = loading s\<rparr>,
                       answer_card_of = None\<rparr>)
         \<and> (answer s = Null \<and> gt0 g c = Inr False \<longrightarrow>
               render g (fst (fetchStats e s)) =
                 Some \<lparr>stats_bar_of = None, answer_card_of = None\<rparr>)"
proof -
  let ?s' = "fst (fetchStats e s)"
  have st: "?s' = s\<lparr>stats := Obj kvs\<rparr>"
    using assms(1) by (simp add: fetchStats_def)
  have bar: "stats_bar g ?s' =
      (case gt0 g c of
         Inl err \<Rightarrow> Inl err
       | Inr positive \<Rightarrow>
           if positive
           then Inr (Some \<lparr>documents_value = d, chunks_value = c,
                            clear_all_disabled = loading s\<rparr>)
           else Inr None)"
    using assms(2,3) by (simp add: st stats_bar_Obj [where kvs = kvs] split: sum.split)
  have "stats_bar_of v =
          (if gt0 g c = Inr True
           then Some \<lparr>documents_value = d, chunks_value = c, clear_all_disabled = loading s\<rparr>
           else None)"
    if "render g ?s' = Some v" for v
    using render_Some_bar [OF that] bar by (auto split: sum.splits if_splits)
  moreover have "render g ?s' =
      Some \<lparr>stats_bar_of = Some \<lparr>documents_value = d, chunks_value = c,
                                   clear_all_disabled = loading s\<rparr>,
            answer_card_of = None\<rparr>"
    if "answer s = Null" "gt0 g c = Inr True" "renderable d" "renderable c"
    using that bar by (simp add: render_def answer_card_Null st stats_bar_children_ok_def)
  moreover have "render g ?s' = Some \<lparr>stats_bar_of = None, answer_card_of = None\<rparr>"
    if "answer s = Null" "gt0 g c = Inr False"
    using that bar by (simp add: render_def answer_card_Null st)
  ultimately show ?thesis using st by simp
qed

text \<open>An instance: the backend reports 2 documents and 9 chunks.\<close>

theorem stats_fetch_displayed_witness:
  "stats (fst (fetchStats
      (backend True (Inr (Obj [(js ''total_documents'', Num 2), (js ''total_chunks'', Num 9)])))
      initial_state)) =
     Obj [(js ''total_documents'', Num 2), (js ''total_chunks'', Num 9)]
   \<and> render (\<lambda>t. False) (fst (fetchStats
      (backend True (Inr (Obj [(js ''total_documents'', Num 2), (js ''total_chunks'', Num 9)])))
      initial_state)) =
     Some \<lparr>stats_bar_of = Some \<lparr>documents_value = Num 2, chunks_value = Num 9,
                                  clear_all_disabled = False\<rparr>,
           answer_card_of = None\<rparr>"
proof -
  let ?kvs = "[(js ''total_documents'', Num 2), (js ''total_chunks'', Num 9)]"
  let ?e = "backend True (Inr (Obj ?kvs))"
  have r: "server ?e (stats_request ?e) = Response True (Inr (Obj ?kvs))"
    by (simp add: backend_def)
  have d: "map_of ?kvs (js ''total_documents'') = Some (Num 2)" by simp
  have c: "map_of ?kvs (js ''total_chunks'') = Some (Num 9)" by (simp add: js_def)
  have h: "answer initial_state = Null \<and> gt0 (\<lambda>t. False) (Num 9) = Inr True
           \<and> renderable (Num 2) \<and> renderable (Num 9)"
    by (simp add: initial_state_def)
  show ?thesis
    using h stats_fetch_displayed [OF r d c, where g = "\<lambda>t. False" and s = initial_state]
    by (simp add: initial_state_def)
qed

text \<open>
  C4 as stated fails. A stats response \<^verbatim>\<open>{total_documents: 3, total_chunks: 0}\<close> has both
  fields, and the page that renders afterwards has no stats bar: neither count is
  displayed. Nor is every response such an object: \<^verbatim>\<open>fetchStats\<close> does not look at
  \<^verbatim>\<open>response.ok\<close>, and the body of an error response is stored as \<^verbatim>\<open>stats\<close> all the
  same.
\<close>

theorem stats_zero_chunks_counterexample:
  "stats (fst (fetchStats
      (backend True (Inr (Obj [(js ''total_documents'', Num 3), (js ''total_chunks'', Num 0)])))
      initial_state)) =
     Obj [(js ''total_documents'', Num 3), (js ''total_chunks'', Num 0)]
   \<and> render (\<lambda>t. False) (fst (fetchStats
      (backend True (Inr (Obj [(js ''total_documents'', Num 3), (js ''total_chunks'', Num 0)])))
      initial_state)) =
     Some \<lparr>stats_bar_of = None, answer_card_of = None\<rparr>
   \<and> stats (fst (fetchStats
      (backend False (Inr (Obj [(js ''detail'', Str (js ''Internal Server Error''))])))
      initial_state)) =
     Obj [(js ''detail'', Str (js ''Internal Server Error''))]"
  by (simp add: handler_defs scenario_defs render_defs Let_def js_def)

subsection \<open>C5: a failed query degrades to an error answer\<close>

text \<open>
  C5. For every search with a non-blank question whose fetch rejects, whose body cannot be
  parsed, or whose response is not ok, the handler completes with \<^verbatim>\<open>loading\<close> false and
  \<^verbatim>\<open>answer\<close> set to an object whose \<^verbatim>\<open>sources\<close> list is empty and whose \<^verbatim>\<open>answer\<close>
  text is \<^verbatim>\<open>Error: \<close> followed by an explanation: the caught error's message when
  something threw, the text of the response's \<^verbatim>\<open>detail\<close> otherwise. Every point of the
  \<^verbatim>\<open>try\<close> block that can throw is covered: the fetch, \<^verbatim>\<open>json()\<close>, the read of
  \<^verbatim>\<open>detail\<close> on a \<^verbatim>\<open>null\<close> body, and the conversion of \<^verbatim>\<open>detail\<close> to text. So no
  failure leaves the handler as an exception.
\<close>

theorem search_failure_degrades:
  assumes "trim (query s) \<noteq> []"
  shows "(server e (query_request e s) = Rejected err \<or>
          server e (query_request e s) = Response ok (Inl err) \<or>
          (\<exists>result. server e (query_request e s) = Response False (Inr result) \<and>
             (get_prop result (js ''detail'') = Inl err \<or>
              (\<exists>d. get_prop result (js ''detail'') = Inr d \<and> to_string d = Inl err)))
          \<longrightarrow> fst (searchKnowledgeBase e s) =
                s\<lparr>answer := Obj [(js ''answer'', Str (js ''Error: '' @ message err)),
                                 (js ''sources'', Arr [])],
                  loading := False\<rparr>)
       \<and> (\<forall>result d detail_text.
             server e (query_request e s) = Response False (Inr result) \<and>
             get_prop result (js ''detail'') = Inr d \<and> to_string d = Inr detail_text
          \<longrightarrow> fst (searchKnowledgeBase e s) =
                s\<lparr>answer := Obj [(js ''answer'', Str (js ''Error: '' @ detail_text)),
                                 (js ''sources'', Arr [])],
                  loading := False\<rparr>)
       \<and> ((\<exists>err. server e (query_request e s) = Rejected err) \<or>
          (\<exists>ok err. server e (query_request e s) = Response ok (Inl err)) \<or>
          (\<exists>parsed. server e (query_request e s) = Response False parsed)
          \<longrightarrow> (\<exists>m. fst (searchKnowledgeBase e s) =
                s\<lparr>answer := Obj [(js ''answer'', Str (js ''Error: '' @ m)),
                                 (js ''sources'', Arr [])],
                  loading := False\<rparr>))"
proof (intro conjI)
  show "server e (query_request e s) = Rejected err \<or>
          server e (query_request e s) = Response ok (Inl err) \<or>
          (\<exists>result. server e (query_request e s) = Response False (Inr result) \<and>
             (get_prop result (js ''detail'') = Inl err \<or>
              (\<exists>d. get_prop result (js ''detail'') = Inr d \<and> to_string d = Inl err)))
          \<longrightarrow> fst (searchKnowledgeBase e s) =
                s\<lparr>answer := Obj [(js ''answer'', Str (js ''Error: '' @ message err)),
                                 (js ''sources'', Arr [])],
                  loading := False\<rparr>"
    using assms
    by (auto simp add: search_state search_try_def query_request_loading detail_of_def
        error_answer_def Let_def)
  show "\<forall>result d detail_text.
             server e (query_request e s) = Response False (Inr result) \<and>
             get_prop result (js ''detail'') = Inr d \<and> to_string d = Inr detail_text
          \<longrightarrow> fst (searchKnowledgeBase e s) =
                s\<lparr>answer := Obj [(js ''answer'', Str (js ''Error: '' @ detail_text)),
                                 (js ''sources'', Arr [])],
                  loading := False\<rparr>"
    using assms
    by (auto simp add: search_state search_try_def query_request_loading detail_of_def
        error_answer_def Let_def)
  show "(\<exists>err. server e (query_request e s) = Rejected err) \<or>
          (\<exists>ok err. server e (query_request e s) = Response ok (Inl err)) \<or>
          (\<exists>parsed. server e (query_request e s) = Response False parsed)
          \<longrightarrow> (\<exists>m. fst (searchKnowledgeBase e s) =
                s\<lparr>answer := Obj [(js ''answer'', Str (js ''Error: '' @ m)),
                                 (js ''sources'', Arr [])],
                  loading := False\<rparr>)"
  proof
    assume failure: "(\<exists>err. server e (query_request e s) = Rejected err) \<or>
          (\<exists>ok err. server e (query_request e s) = Response ok (Inl err)) \<or>
          (\<exists>parsed. server e (query_request e s) = Response False parsed)"
    let ?s1 = "s\<lparr>loading := True, answer := Null\<rparr>"
    from failure
    have "(\<exists>err. fst (search_try e ?s1) = Inl err) \<or>
          (\<exists>m. fst (search_try e ?s1) = Inr (?s1\<lparr>answer := error_answer m\<rparr>))"
      by (auto simp add: search_try_def query_request_loading Let_def split: sum.splits)
    then show "\<exists>m. fst (searchKnowledgeBase e s) =
                s\<lparr>answer := Obj [(js ''answer'', Str (js ''Error: '' @ m)),
                                 (js ''sources'', Arr [])],
                  loading := False\<rparr>"
    proof (elim disjE exE)
      fix err assume "fst (search_try e ?s1) = Inl err"
      then have "fst (searchKnowledgeBase e s) =
                s\<lparr>answer := Obj [(js ''answer'', Str (js ''Error: '' @ message err)),
                                 (js ''sources'', Arr [])],
                  loading := False\<rparr>"
        using assms by (simp add: search_state error_answer_def)
      then show ?thesis by (rule exI [where x = "message err"])
    next
      fix m assume "fst (search_try e ?s1) = Inr (?s1\<lparr>answer := error_answer m\<rparr>)"
      then have "fst (searchKnowledgeBase e s) =
                s\<lparr>answer := Obj [(js ''answer'', Str (js ''Error: '' @ m)),
                                 (js ''sources'', Arr [])],
                  loading := False\<rparr>"
        using assms by (simp add: search_state error_answer_def)
      then show ?thesis by (rule exI [where x = m])
    qed
  qed
qed

text \<open>
  Instances: an unreachable backend; a response that is not ok with a \<^verbatim>\<open>detail\<close> string;
  a response that is not ok whose \<^verbatim>\<open>detail\<close> is \<^verbatim>\<open>{toString: 1}\<close>, which cannot be
  converted to text.
\<close>

theorem search_failure_degrades_witness:
  "trim (query (asking (js ''why?''))) \<noteq> []
   \<and> fst (searchKnowledgeBase offline (asking (js ''why?''))) =
       (asking (js ''why?''))\<lparr>answer := Obj [(js ''answer'', Str (js ''Error: Failed to fetch'')),
                                            (js ''sources'', Arr [])],
                               loading := False\<rparr>
   \<and> fst (searchKnowledgeBase (backend False (Inr (Obj [(js ''detail'', Str (js ''No documents''))])))
            (asking (js ''why?''))) =
       (asking (js ''why?''))\<lparr>answer := Obj [(js ''answer'', Str (js ''Error: No documents'')),
                                            (js ''sources'', Arr [])],
                               loading := False\<rparr>
   \<and> fst (searchKnowledgeBase
            (backend False (Inr (Obj [(js ''detail'', Obj [(js ''toString'', Num 1)])])))
            (asking (js ''why?''))) =
       (asking (js ''why?''))\<lparr>answer := Obj [(js ''answer'',
                                              Str (js ''Error: Cannot convert object to primitive value'')),
                                            (js ''sources'', Arr [])],
                               loading := False\<rparr>"
proof -
  let ?q = "asking (js ''why?'')"
  have nb: "trim (query ?q) \<noteq> []"
    by (simp add: asking_def trim_def js_def is_white_space_def)
  have a: "server offline (query_request offline ?q) = Rejected (TypeError (js ''Failed to fetch''))"
    by (simp add: offline_def)
  note t1 = search_failure_degrades [OF nb, where e = offline
      and err = "TypeError (js ''Failed to fetch'')" and ok = True,
      THEN conjunct1, rule_format, OF disjI1, OF a]
  let ?b = "backend False (Inr (Obj [(js ''detail'', Str (js ''No documents''))]))"
  have b: "server ?b (query_request ?b ?q) =
             Response False (Inr (Obj [(js ''detail'', Str (js ''No documents''))]))
           \<and> get_prop (Obj [(js ''detail'', Str (js ''No documents''))]) (js ''detail'')
               = Inr (Str (js ''No documents''))
           \<and> to_string (Str (js ''No documents'')) = Inr (js ''No documents'')"
    by (simp add: backend_def)
  note t2 = search_failure_degrades [OF nb, where e = ?b
      and err = "TypeError (js ''Failed to fetch'')" and ok = True,
      THEN conjunct2, THEN conjunct1, rule_format, OF b]
  let ?o = "Obj [(js ''toString'', Num 1)]"
  let ?c = "backend False (Inr (Obj [(js ''detail'', ?o)]))"
  have c: "\<exists>result. server ?c (query_request ?c ?q) = Response False (Inr result) \<and>
             (get_prop result (js ''detail'') = Inl (TypeError cannot_convert) \<or>
              (\<exists>d. get_prop result (js ''detail'') = Inr d \<and> to_string d = Inl (TypeError cannot_convert)))"
    by (simp add: backend_def)
  note t3 = search_failure_degrades [OF nb, where e = ?c
      and err = "TypeError cannot_convert" and ok = True,
      THEN conjunct1, rule_format, OF disjI2, OF disjI2, OF c]
  show ?thesis using nb t1 t2 t3 by (simp add: js_def cannot_convert_def)
qed

subsection \<open>C6: the accept attribute and the files that are sent\<close>

text \<open>
  C6, as amended. The file input declares exactly the four specifiers \<^verbatim>\<open>.pdf\<close>,
  \<^verbatim>\<open>.txt\<close>, \<^verbatim>\<open>.docx\<close> and \<^verbatim>\<open>.pptx\<close> in its \<^verbatim>\<open>accept\<close> attribute. The component
  checks no extension itself: the files of the input's change event become the selection
  as they are, and a non-empty selection is sent whole, in order, as the \<^verbatim>\<open>files\<close>
  entries of the upload request.
\<close>

theorem accept_declared_files_unfiltered:
  "accepted_specifiers = [js ''.pdf'', js ''.txt'', js ''.docx'', js ''.pptx'']
   \<and> files (handleFileChange fs s) = fs
   \<and> (fs \<noteq> [] \<longrightarrow>
        (\<exists>rest. requests (snd (uploadDocuments e (handleFileChange fs s))) =
           \<lparr>url = API_URL e @ js ''/upload'', http_method = js ''POST'', headers = [],
             body = FormData (map (\<lambda>f. (js ''files'', f)) fs)\<rparr> # rest))"
proof (intro conjI impI)
  show "accepted_specifiers = [js ''.pdf'', js ''.txt'', js ''.docx'', js ''.pptx'']"
    by (simp add: accepted_specifiers_def accept_def js_def)
  show f: "files (handleFileChange fs s) = fs"
    by (simp add: handleFileChange_def)
  assume ne: "fs \<noteq> []"
  let ?s = "handleFileChange fs s"
  let ?s1 = "?s\<lparr>loading := True, uploadStatus := js ''Uploading and processing documents...''\<rparr>"
  have u: "upload_request e ?s1 = upload_request e ?s" by (simp add: upload_request_def)
  have "files ?s \<noteq> []" using ne f by simp
  from upload_effects [OF this, of e] upload_try_requests [of e ?s1] u
  show "\<exists>rest. requests (snd (uploadDocuments e ?s)) =
          \<lparr>url = API_URL e @ js ''/upload'', http_method = js ''POST'', headers = [],
            body = FormData (map (\<lambda>f. (js ''files'', f)) fs)\<rparr> # rest"
    by (auto simp add: upload_request_def f)
qed

theorem accept_declared_files_unfiltered_witness:
  "[\<lparr>file_name = js ''a.pdf'', file_bytes = []\<rparr>] \<noteq> []
   \<and> (\<exists>rest. requests (snd (uploadDocuments offline
          (handleFileChange [\<lparr>file_name = js ''a.pdf'', file_bytes = []\<rparr>] initial_state))) =
       \<lparr>url = js ''http://localhost:8000/upload'', http_method = js ''POST'', headers = [],
         body = FormData [(js ''files'', \<lparr>file_name = js ''a.pdf'', file_bytes = []\<rparr>)]\<rparr> # rest)"
  using accept_declared_files_unfiltered
    [where fs = "[\<lparr>file_name = js ''a.pdf'', file_bytes = []\<rparr>]" and s = initial_state
       and e = offline]
  by (simp add: API_URL_def offline_def js_def)

text \<open>
  C6 as stated fails. The \<^verbatim>\<open>accept\<close> attribute only presets the filter of the browser's
  file dialog; the user can lift the filter or drop a file onto the input, and the change
  event then carries a file such as \<^verbatim>\<open>setup.exe\<close>. It matches none of the four
  specifiers and is offered to the upload boundary all the same.
\<close>

theorem unlisted_extension_uploaded_counterexample:
  "\<not> matches_accept \<lparr>file_name = js ''setup.exe'', file_bytes = []\<rparr>
   \<and> requests (snd (uploadDocuments offline (picked [js ''setup.exe'']))) =
       [\<lparr>url = js ''http://localhost:8000/upload'', http_method = js ''POST'', headers = [],
         body = FormData [(js ''files'', \<lparr>file_name = js ''setup.exe'', file_bytes = []\<rparr>)]\<rparr>]"
  by (simp add: handler_defs scenario_defs Let_def js_def matches_accept_def
      accepted_specifiers_def accept_def has_extension_def lower_def)

subsection \<open>C7: clearing\<close>

text \<open>
  C7, as amended. Every clear confirmed by the user sends exactly one request, a DELETE to
  \<^verbatim>\<open>/clear\<close>. When the response is ok and its body parses as JSON, the status line
  becomes the cleared confirmation, \<^verbatim>\<open>stats\<close> and \<^verbatim>\<open>answer\<close> become \<^verbatim>\<open>null\<close>, and
  neither the stats bar nor the answer card is rendered any more.
\<close>

theorem clear_confirmed:
  assumes "confirms e"
  shows "requests (snd (clearKnowledgeBase e s)) =
           [\<lparr>url = API_URL e @ js ''/clear'', http_method = js ''DELETE'', headers = [],
             body = NoBody\<rparr>]
         \<and> (\<forall>result. server e (clear_request e) = Response True (Inr result) \<longrightarrow>
               fst (clearKnowledgeBase e s) =
                 s\<lparr>answer := Null, loading := False, stats := Null,
                   uploadStatus := check_mark @ js '' Knowledge base cleared''\<rparr>
               \<and> stats_bar g (fst (clearKnowledgeBase e s)) = Inr None
               \<and> \<not> answer_card_rendered (fst (clearKnowledgeBase e s)))"
proof -
  have "snd (clearKnowledgeBase e s) = Confirm clear_prompt # snd (clear_try e (s\<lparr>loading := True\<rparr>))"
    using assms by (simp add: clearKnowledgeBase_def Let_def case_prod_beta)
  then have req: "requests (snd (clearKnowledgeBase e s)) = [clear_request e]"
    by (simp add: clear_try_effects)
  have "fst (clearKnowledgeBase e s) =
          s\<lparr>answer := Null, loading := False, stats := Null, uploadStatus := cleared_message\<rparr>"
    if "server e (clear_request e) = Response True (Inr result)" for result
    using assms that by (simp add: clear_state clear_try_def Let_def)
  then show ?thesis
    using req
    by (simp add: clear_request_def cleared_message_def stats_bar_def answer_card_rendered_def)
qed

theorem clear_confirmed_witness:
  "confirms (backend True (Inr (Obj [(js ''message'', Str (js ''cleared''))])))
   \<and> requests (snd (clearKnowledgeBase
         (backend True (Inr (Obj [(js ''message'', Str (js ''cleared''))])))
         (holding (Obj [(js ''total_documents'', Num 2), (js ''total_chunks'', Num 9)])
                  (Obj [(js ''answer'', Str (js ''42''))])))) =
       [\<lparr>url = js ''http://localhost:8000/clear'', http_method = js ''DELETE'', headers = [],
         body = NoBody\<rparr>]
   \<and> fst (clearKnowledgeBase
         (backend True (Inr (Obj [(js ''message'', Str (js ''cleared''))])))
         (holding (Obj [(js ''total_documents'', Num 2), (js ''total_chunks'', Num 9)])
                  (Obj [(js ''answer'', Str (js ''42''))]))) =
       initial_state\<lparr>uploadStatus := check_mark @ js '' Knowledge base cleared''\<rparr>"
proof -
  let ?e = "backend True (Inr (Obj [(js ''message'', Str (js ''cleared''))]))"
  let ?s = "holding (Obj [(js ''total_documents'', Num 2), (js ''total_chunks'', Num 9)])
                    (Obj [(js ''answer'', Str (js ''42''))])"
  have c: "confirms ?e" by (simp add: backend_def)
  have r: "server ?e (clear_request ?e) = Response True (Inr (Obj [(js ''message'', Str (js ''cleared''))]))"
    by (simp add: backend_def)
  from clear_confirmed [OF c, where s = ?s and g = "\<lambda>t. False"]
  have "requests (snd (clearKnowledgeBase ?e ?s)) =
           [\<lparr>url = API_URL ?e @ js ''/clear'', http_method = js ''DELETE'', headers = [],
             body = NoBody\<rparr>]"
    and "fst (clearKnowledgeBase ?e ?s) =
           ?s\<lparr>answer := Null, loading := False, stats := Null,
               uploadStatus := check_mark @ js '' Knowledge base cleared''\<rparr>"
    using r by blast+
  then show ?thesis
    using c by (simp add: API_URL_def backend_def holding_def initial_state_def js_def)
qed

text \<open>
  C7 as stated fails. \<^verbatim>\<open>response.json()\<close> is awaited before \<^verbatim>\<open>response.ok\<close> is
  looked at: an ok response whose body is not JSON (an empty body, say) lands in the
  \<^verbatim>\<open>catch\<close> clause. The status line reports the parse error, and the stats and the
  answer held before stay on display.
\<close>

theorem clear_ok_unparsed_body_counterexample:
  "fst (clearKnowledgeBase
      (backend True (Inl (SyntaxError (js ''Unexpected end of JSON input''))))
      (holding (Obj [(js ''total_documents'', Num 2), (js ''total_chunks'', Num 9)])
               (Obj [(js ''answer'', Str (js ''42''))]))) =
     (holding (Obj [(js ''total_documents'', Num 2), (js ''total_chunks'', Num 9)])
              (Obj [(js ''answer'', Str (js ''42''))]))
       \<lparr>uploadStatus := ballot_x @ js '' Error: Unexpected end of JSON input''\<rparr>
   \<and> clear_all_rendered (\<lambda>t. False) (fst (clearKnowledgeBase
      (backend True (Inl (SyntaxError (js ''Unexpected end of JSON input''))))
      (holding (Obj [(js ''total_documents'', Num 2), (js ''total_chunks'', Num 9)])
               (Obj [(js ''answer'', Str (js ''42''))]))))
   \<and> answer_card_rendered (fst (clearKnowledgeBase
      (backend True (Inl (SyntaxError (js ''Unexpected end of JSON input''))))
      (holding (Obj [(js ''total_documents'', Num 2), (js ''total_chunks'', Num 9)])
               (Obj [(js ''answer'', Str (js ''42''))]))))"
  by (simp add: handler_defs scenario_defs render_defs Let_def js_def)

subsection \<open>C8: the guards send nothing\<close>

text \<open>
  C8. \<^verbatim>\<open>uploadDocuments\<close> with no selected file, and \<^verbatim>\<open>searchKnowledgeBase\<close> with an
  empty or white-space-only question, leave the state as it is and only raise an alert: no
  request is sent. Hence every request \<^verbatim>\<open>uploadDocuments\<close> sends comes from a non-empty
  selection (the upload request carries all of it; the other request is the stats
  refresh), and every request \<^verbatim>\<open>searchKnowledgeBase\<close> sends carries a non-blank
  question.
\<close>

theorem guards_send_nothing:
  "(files s = [] \<longrightarrow> uploadDocuments e s = (s, [Alert (js ''Please select files to upload'')]))
   \<and> (list_all is_white_space (query s) \<longrightarrow>
        searchKnowledgeBase e s = (s, [Alert (js ''Please enter a question'')]))
   \<and> (\<forall>r \<in> set (requests (snd (uploadDocuments e s))).
        files s \<noteq> [] \<and>
        (r = stats_request e \<or>
         r = \<lparr>url = API_URL e @ js ''/upload'', http_method = js ''POST'', headers = [],
              body = FormData (map (\<lambda>f. (js ''files'', f)) (files s))\<rparr>))
   \<and> (\<forall>r \<in> set (requests (snd (searchKnowledgeBase e s))).
        \<not> list_all is_white_space (query s) \<and>
        r = \<lparr>url = API_URL e @ js ''/query'', http_method = js ''POST'',
             headers = [(js ''Content-Type'', js ''application/json'')],
             body = JsonBody (Obj [(js ''question'', Str (query s)),
                                   (js ''top_k'', Num 5),
                                   (js ''include_sources'', Bool True)])\<rparr>)"
proof (intro conjI)
  show "files s = [] \<longrightarrow> uploadDocuments e s = (s, [Alert (js ''Please select files to upload'')])"
    by (simp add: uploadDocuments_def)
  show "list_all is_white_space (query s) \<longrightarrow>
        searchKnowledgeBase e s = (s, [Alert (js ''Please enter a question'')])"
    by (simp add: searchKnowledgeBase_def trim_empty_iff)
  show "\<forall>r \<in> set (requests (snd (uploadDocuments e s))).
        files s \<noteq> [] \<and>
        (r = stats_request e \<or>
         r = \<lparr>url = API_URL e @ js ''/upload'', http_method = js ''POST'', headers = [],
              body = FormData (map (\<lambda>f. (js ''files'', f)) (files s))\<rparr>)"
  proof (cases "files s = []")
    case True
    then show ?thesis by (simp add: uploadDocuments_def)
  next
    case False
    let ?s1 = "s\<lparr>loading := True, uploadStatus := js ''Uploading and processing documents...''\<rparr>"
    have "upload_request e ?s1 = upload_request e s" by (simp add: upload_request_def)
    with upload_try_requests [of e ?s1] upload_effects [OF False, of e] False
    show ?thesis by (auto simp add: upload_request_def)
  qed
  show "\<forall>r \<in> set (requests (snd (searchKnowledgeBase e s))).
        \<not> list_all is_white_space (query s) \<and>
        r = \<lparr>url = API_URL e @ js ''/query'', http_method = js ''POST'',
             headers = [(js ''Content-Type'', js ''application/json'')],
             body = JsonBody (Obj [(js ''question'', Str (query s)),
                                   (js ''top_k'', Num 5),
                                   (js ''include_sources'', Bool True)])\<rparr>"
  proof (cases "trim (query s) = []")
    case True
    then show ?thesis by (simp add: searchKnowledgeBase_def)
  next
    case False
    then have "snd (searchKnowledgeBase e s) = snd (search_try e (s\<lparr>loading := True, answer := Null\<rparr>))"
      by (simp add: searchKnowledgeBase_def Let_def case_prod_beta)
    with False show ?thesis
      by (simp add: search_try_effects query_request_def trim_empty_iff)
  qed
qed

theorem guards_send_nothing_witness:
  "files initial_state = []
   \<and> uploadDocuments offline initial_state =
       (initial_state, [Alert (js ''Please select files to upload'')])
   \<and> list_all is_white_space (query (asking (js ''   '')))
   \<and> searchKnowledgeBase offline (asking (js ''   '')) =
       (asking (js ''   ''), [Alert (js ''Please enter a question'')])
   \<and> requests (snd (uploadDocuments offline (picked [js ''a.pdf'']))) \<noteq> []
   \<and> files (picked [js ''a.pdf'']) \<noteq> []
   \<and> requests (snd (searchKnowledgeBase offline (asking (js ''why?'')))) \<noteq> []
   \<and> \<not> list_all is_white_space (query (asking (js ''why?'')))"
proof -
  have a: "files initial_state = []" by (simp add: initial_state_def)
  have b: "list_all is_white_space (query (asking (js ''   '')))"
    by (simp add: asking_def js_def is_white_space_def)
  have c: "requests (snd (uploadDocuments offline (picked [js ''a.pdf'']))) \<noteq> []"
    by (simp add: handler_defs scenario_defs Let_def)
  have d: "requests (snd (searchKnowledgeBase offline (asking (js ''why?'')))) \<noteq> []"
    by (simp add: handler_defs scenario_defs Let_def trim_def js_def is_white_space_def)
  from c obtain r where r: "r \<in> set (requests (snd (uploadDocuments offline (picked [js ''a.pdf'']))))"
    by (cases "requests (snd (uploadDocuments offline (picked [js ''a.pdf''])))") auto
  from d obtain q where q: "q \<in> set (requests (snd (searchKnowledgeBase offline (asking (js ''why?'')))))"
    by (cases "requests (snd (searchKnowledgeBase offline (asking (js ''why?''))))") auto
  note g1 = guards_send_nothing [where s = initial_state and e = offline]
  note g2 = guards_send_nothing [where s = "asking (js ''   '')" and e = offline]
  note g3 = guards_send_nothing [where s = "picked [js ''a.pdf'']" and e = offline]
  note g4 = guards_send_nothing [where s = "asking (js ''why?'')" and e = offline]
  show ?thesis
    using a b c d r q g1 g2 g3 g4 by blast
qed

subsection \<open>C9: the loading flag is reset\<close>

text \<open>
  C9. Whenever an upload, a search or a clear gets past its guard, the loading flag is
  false at completion, whatever the outcome of the request: success, a response that is
  not ok, or a throw. An invocation stopped by its guard leaves the flag as it was, so
  from a state that is not loading no invocation ends in the loading state.
\<close>

theorem loading_reset:
  "(files s \<noteq> [] \<longrightarrow> \<not> loading (fst (uploadDocuments e s)))
   \<and> (trim (query s) \<noteq> [] \<longrightarrow> \<not> loading (fst (searchKnowledgeBase e s)))
   \<and> (confirms e \<longrightarrow> \<not> loading (fst (clearKnowledgeBase e s)))
   \<and> (\<not> loading s \<longrightarrow>
        \<not> loading (fst (uploadDocuments e s))
        \<and> \<not> loading (fst (searchKnowledgeBase e s))
        \<and> \<not> loading (fst (clearKnowledgeBase e s)))"
  by (simp add: uploadDocuments_def searchKnowledgeBase_def clearKnowledgeBase_def Let_def
      case_prod_beta)

theorem loading_reset_witness:
  "files (picked [js ''a.pdf'']) \<noteq> []
   \<and> \<not> loading (fst (uploadDocuments offline (picked [js ''a.pdf''])))
   \<and> trim (query (asking (js ''why?''))) \<noteq> []
   \<and> \<not> loading (fst (searchKnowledgeBase (backend False (Inr Null)) (asking (js ''why?''))))
   \<and> confirms (backend True (Inr Null))
   \<and> \<not> loading (fst (clearKnowledgeBase (backend True (Inr Null)) initial_state))
   \<and> \<not> loading initial_state"
proof -
  have a: "files (picked [js ''a.pdf'']) \<noteq> []"
    by (simp add: picked_def handleFileChange_def)
  have b: "trim (query (asking (js ''why?''))) \<noteq> []"
    by (simp add: asking_def trim_def js_def is_white_space_def)
  have c: "confirms (backend True (Inr Null))" by (simp add: backend_def)
  have d: "\<not> loading initial_state" by (simp add: initial_state_def)
  show ?thesis
    using a b c d
      loading_reset [where s = "picked [js ''a.pdf'']" and e = offline]
      loading_reset [where s = "asking (js ''why?'')" and e = "backend False (Inr Null)"]
      loading_reset [where s = initial_state and e = "backend True (Inr Null)"]
    by blast
qed

subsection \<open>C10: when the stats bar and Clear All are rendered\<close>

text \<open>
  C10, as amended. The stats bar, and with it the Clear All button, is rendered if and
  only if \<^verbatim>\<open>stats\<close> is not \<^verbatim>\<open>null\<close>, \<^verbatim>\<open>stats.total_chunks\<close> is greater than 0, and the
  page renders at all. With \<^verbatim>\<open>total_chunks\<close> equal to 0 there is no Clear All button,
  so the clear operation cannot be reached. With no answer on display and two numbers as
  \<^verbatim>\<open>total_documents\<close> and \<^verbatim>\<open>total_chunks\<close>, the latter positive, the button is rendered.
\<close>

theorem clear_all_rendered_iff:
  "(clear_all_rendered g s \<longleftrightarrow>
      stats s \<noteq> Null
      \<and> (\<exists>c. get_prop (stats s) (js ''total_chunks'') = Inr c \<and> gt0 g c = Inr True)
      \<and> render g s \<noteq> None)
   \<and> (clear_all_rendered g s \<longleftrightarrow> (\<exists>v b. render g s = Some v \<and> stats_bar_of v = Some b))
   \<and> (get_prop (stats s) (js ''total_chunks'') = Inr (Num 0) \<longrightarrow> \<not> clear_all_rendered g s)
   \<and> (\<forall>kvs m n. answer s = Null \<and> stats s = Obj kvs
         \<and> map_of kvs (js ''total_documents'') = Some (Num m)
         \<and> map_of kvs (js ''total_chunks'') = Some (Num n) \<and> 0 < sint n
        \<longrightarrow> clear_all_rendered g s)"
proof (intro conjI)
  show main: "clear_all_rendered g s \<longleftrightarrow>
      stats s \<noteq> Null
      \<and> (\<exists>c. get_prop (stats s) (js ''total_chunks'') = Inr c \<and> gt0 g c = Inr True)
      \<and> render g s \<noteq> None"
  proof
    assume "clear_all_rendered g s"
    then obtain v b where v: "render g s = Some v" "stats_bar_of v = Some b"
      by (auto simp add: clear_all_rendered_eq)
    then have "stats_bar g s = Inr (Some b)"
      using render_Some_bar [of g s v] by simp
    then have "\<exists>b. stats_bar g s = Inr (Some b)" by (rule exI [where x = b])
    then show "stats s \<noteq> Null
      \<and> (\<exists>c. get_prop (stats s) (js ''total_chunks'') = Inr c \<and> gt0 g c = Inr True)
      \<and> render g s \<noteq> None"
      using v(1) by (simp add: stats_bar_Some_iff)
  next
    assume h: "stats s \<noteq> Null
      \<and> (\<exists>c. get_prop (stats s) (js ''total_chunks'') = Inr c \<and> gt0 g c = Inr True)
      \<and> render g s \<noteq> None"
    then obtain b where b: "stats_bar g s = Inr (Some b)"
      using stats_bar_Some_iff [of g s] by blast
    from h obtain v where v: "render g s = Some v" by blast
    with render_Some_bar [OF v] b have "stats_bar_of v = Some b" by simp
    with v show "clear_all_rendered g s" by (auto simp add: clear_all_rendered_eq)
  qed
  show "clear_all_rendered g s \<longleftrightarrow> (\<exists>v b. render g s = Some v \<and> stats_bar_of v = Some b)"
    by (rule clear_all_rendered_eq)
  show "get_prop (stats s) (js ''total_chunks'') = Inr (Num 0) \<longrightarrow> \<not> clear_all_rendered g s"
    using main by auto
  show "\<forall>kvs m n. answer s = Null \<and> stats s = Obj kvs
         \<and> map_of kvs (js ''total_documents'') = Some (Num m)
         \<and> map_of kvs (js ''total_chunks'') = Some (Num n) \<and> 0 < sint n
        \<longrightarrow> clear_all_rendered g s"
    by (auto simp add: clear_all_rendered_def render_def answer_card_Null stats_bar_Obj
        stats_bar_children_ok_def)
qed

text \<open>Instances: an empty knowledge base, and one with 2 documents in 9 chunks.\<close>

theorem clear_all_rendered_iff_witness:
  "get_prop (stats (holding (Obj [(js ''total_documents'', Num 0), (js ''total_chunks'', Num 0)]) Null))
     (js ''total_chunks'') = Inr (Num 0)
   \<and> \<not> clear_all_rendered (\<lambda>t. False)
        (holding (Obj [(js ''total_documents'', Num 0), (js ''total_chunks'', Num 0)]) Null)
   \<and> clear_all_rendered (\<lambda>t. False)
        (holding (Obj [(js ''total_documents'', Num 2), (js ''total_chunks'', Num 9)]) Null)"
proof -
  let ?z = "holding (Obj [(js ''total_documents'', Num 0), (js ''total_chunks'', Num 0)]) Null"
  let ?kvs = "[(js ''total_documents'', Num 2), (js ''total_chunks'', Num 9)]"
  let ?p = "holding (Obj ?kvs) Null"
  have z: "get_prop (stats ?z) (js ''total_chunks'') = Inr (Num 0)"
    by (simp add: holding_def initial_state_def js_def)
  have p: "answer ?p = Null \<and> stats ?p = Obj ?kvs
           \<and> map_of ?kvs (js ''total_documents'') = Some (Num 2)
           \<and> map_of ?kvs (js ''total_chunks'') = Some (Num 9) \<and> 0 < sint (9 :: safe_integer)"
    by (simp add: holding_def initial_state_def js_def)
  show ?thesis
    using z p clear_all_rendered_iff [where g = "\<lambda>t. False" and s = ?z]
      clear_all_rendered_iff [where g = "\<lambda>t. False" and s = ?p]
    by blast
qed

text \<open>
  C10 as stated fails in the direction from the condition to the rendering. With
  \<^verbatim>\<open>stats = {total_documents: {a: 1}, total_chunks: 9}\<close> the cell is not \<^verbatim>\<open>null\<close> and
  \<^verbatim>\<open>total_chunks\<close> is above 0, but \<^verbatim>\<open>total_documents\<close> is an object, which React
  refuses as a child: the render fails and neither the stats bar nor Clear All is on the
  page.
\<close>

theorem unrenderable_stats_counterexample:
  "stats (holding (Obj [(js ''total_documents'', Obj [(js ''a'', Num 1)]),
                        (js ''total_chunks'', Num 9)]) Null) \<noteq> Null
   \<and> get_prop (stats (holding (Obj [(js ''total_documents'', Obj [(js ''a'', Num 1)]),
                                   (js ''total_chunks'', Num 9)]) Null))
        (js ''total_chunks'') = Inr (Num 9)
   \<and> gt0 (\<lambda>t. False) (Num 9) = Inr True
   \<and> render (\<lambda>t. False)
        (holding (Obj [(js ''total_documents'', Obj [(js ''a'', Num 1)]),
                       (js ''total_chunks'', Num 9)]) Null) = None
   \<and> \<not> clear_all_rendered (\<lambda>t. False)
        (holding (Obj [(js ''total_documents'', Obj [(js ''a'', Num 1)]),
                       (js ''total_chunks'', Num 9)]) Null)"
  by (simp add: scenario_defs render_defs initial_state_def js_def)

end
